theory Spec2Isabelle
  imports Main "HOL-Library.Word"
begin

unbundle bit_operations_syntax

section \<open>Strings and numbers of the source language\<close>

text \<open>
  The program is TypeScript (\<^verbatim>\<open>src/index.ts\<close>). Its strings are sequences of UTF-16
  code units, so a string is a list of 16-bit words and \<open>length\<close> is the source's
  \<^verbatim>\<open>.length\<close>. A literal of the source is written \<open>str ''...''\<close>.
\<close>

type_synonym jschar = "16 word"
type_synonym jsstring = "jschar list"

definition str :: "string \<Rightarrow> jsstring" where
  "str s = map of_char s"

definition chr :: "char \<Rightarrow> jschar" where
  "chr c = of_char c"

text \<open>
  The character classes of the regular expressions. \<^verbatim>\<open>\d\<close> is \<^verbatim>\<open>[0-9]\<close>; \<^verbatim>\<open>\s\<close> is
  ECMAScript's WhiteSpace and LineTerminator: TAB, LF, VT, FF, CR, SP, NBSP, U+1680,
  U+2000 to U+200A, U+2028, U+2029, U+202F, U+205F, U+3000 and U+FEFF.
\<close>

definition isDigit :: "jschar \<Rightarrow> bool" where
  "isDigit c \<longleftrightarrow> 0x30 \<le> c \<and> c \<le> 0x39"

definition isHexDigit :: "jschar \<Rightarrow> bool" where
  "isHexDigit c \<longleftrightarrow> 0x30 \<le> c \<and> c \<le> 0x39 \<or> 0x41 \<le> c \<and> c \<le> 0x46 \<or> 0x61 \<le> c \<and> c \<le> 0x66"

definition isAlnum :: "jschar \<Rightarrow> bool" where
  "isAlnum c \<longleftrightarrow> 0x41 \<le> c \<and> c \<le> 0x5A \<or> 0x61 \<le> c \<and> c \<le> 0x7A \<or> 0x30 \<le> c \<and> c \<le> 0x39"

definition isSpace :: "jschar \<Rightarrow> bool" where
  "isSpace c \<longleftrightarrow>
     0x09 \<le> c \<and> c \<le> 0x0D \<or> c = 0x20 \<or> c = 0xA0 \<or> c = 0x1680 \<or>
     0x2000 \<le> c \<and> c \<le> 0x200A \<or> c = 0x2028 \<or> c = 0x2029 \<or> c = 0x202F \<or>
     c = 0x205F \<or> c = 0x3000 \<or> c = 0xFEFF"

text \<open>
  A \<^verbatim>\<open>number\<close> of the source is an IEEE double. Every number the program handles is
  read by \<^verbatim>\<open>parseInt\<close> from a non-empty string of digits, so it is a non-negative
  integer that a double represents, or \<open>+\<infinity>\<close>. A number is a \<open>nat\<close>: the integer itself,
  with \<open>2 ^ 1024\<close> standing for \<open>+\<infinity>\<close>.
\<close>

definition digitValue :: "jschar \<Rightarrow> nat" where
  "digitValue c =
     (if 0x30 \<le> c \<and> c \<le> 0x39 then unat c - 0x30
      else if 0x41 \<le> c \<and> c \<le> 0x46 then unat c - 0x41 + 10
      else unat c - 0x61 + 10)"

text \<open>The integer that a string of digits denotes in a radix, exactly.\<close>

definition digitsValue :: "nat \<Rightarrow> jsstring \<Rightarrow> nat" where
  "digitsValue radix s = foldl (\<lambda>acc c. acc * radix + digitValue c) 0 s"

text \<open>
  The Number value of a non-negative integer: the nearest double, a tie going to the
  one with the even significand, and \<open>+\<infinity>\<close> from \<open>2 ^ 1024\<close> on. A double has 53
  significant bits, so an integer below \<open>2 ^ 53\<close> is its own Number value; a larger one
  loses its \<open>excessBits\<close> lowest bits to the rounding.
\<close>

fun excessBits :: "nat \<Rightarrow> nat" where
  "excessBits n = (if n < 2 ^ 53 then 0 else Suc (excessBits (n div 2)))"

declare excessBits.simps [simp del]

definition numberValue :: "nat \<Rightarrow> nat" where
  "numberValue n =
     (if n < 2 ^ 53 then n
      else let e = excessBits n; q = n div 2 ^ e; r = n mod 2 ^ e;
               q = (if 2 ^ e < 2 * r \<or> 2 * r = 2 ^ e \<and> odd q then q + 1 else q);
               m = q * 2 ^ e
           in if 2 ^ 1024 \<le> m then 2 ^ 1024 else m)"

text \<open>
  \<open>parseInt radix s\<close> is \<^verbatim>\<open>parseInt(s, radix)\<close> on a non-empty string of digits of
  that radix, the only strings the two parsers pass to it: the Number value of the
  integer the digits denote. In radix 10 the language lets an engine replace the digits
  after the 20th significant one by zeros before it rounds, so what a decimal string
  with more significant digits gives is left open (\<open>longDecimal\<close>).
\<close>

definition longDecimal :: "jsstring \<Rightarrow> nat" where
  "longDecimal = (SOME f. True)"

definition parseInt :: "nat \<Rightarrow> jsstring \<Rightarrow> nat" where
  "parseInt radix s =
     (if radix = 10 \<and> 10 ^ 20 \<le> digitsValue radix s then longDecimal s
      else numberValue (digitsValue radix s))"

text \<open>
  \<^verbatim>\<open>num.toString(radix)\<close>, which the program calls with radix 16 and, in template
  strings, with radix 10. For an integer below \<open>2 ^ 53\<close> it is the digits of the integer:
  lower case, most significant first, no leading zero (\<open>digitString\<close>; the source raises
  for a radix below 2, and the first test only makes the recursion total). \<open>+\<infinity>\<close> is
  \<^verbatim>\<open>Infinity\<close>. For the other numbers the decimal string is the shortest that reads back
  as the same double, in exponent notation from \<open>10 ^ 21\<close> on, and the hexadecimal
  string is the engine's choice; the model leaves both open (\<open>unsafeToString\<close>).
\<close>

definition digitChar :: "nat \<Rightarrow> jschar" where
  "digitChar d = (if d < 10 then of_nat (0x30 + d) else of_nat (0x61 + (d - 10)))"

fun digitString :: "nat \<Rightarrow> nat \<Rightarrow> jsstring" where
  "digitString radix n =
     (if radix < 2 \<or> n < radix then [digitChar n]
      else digitString radix (n div radix) @ [digitChar (n mod radix)])"

declare digitString.simps [simp del]

definition unsafeToString :: "nat \<Rightarrow> nat \<Rightarrow> jsstring" where
  "unsafeToString = (SOME f. True)"

definition toString :: "nat \<Rightarrow> nat \<Rightarrow> jsstring" where
  "toString radix n =
     (if n < 2 ^ 53 then digitString radix n
      else if n = 2 ^ 1024 then str ''Infinity''
      else unsafeToString radix n)"

text \<open>\<^verbatim>\<open>padStart\<close> and \<^verbatim>\<open>padEnd\<close> with a one-character filler.\<close>

definition padStart :: "jsstring \<Rightarrow> nat \<Rightarrow> jschar \<Rightarrow> jsstring" where
  "padStart s targetLength c = replicate (targetLength - length s) c @ s"

definition padEnd :: "jsstring \<Rightarrow> nat \<Rightarrow> jschar \<Rightarrow> jsstring" where
  "padEnd s targetLength c = s @ replicate (targetLength - length s) c"

definition numToHex :: "nat \<Rightarrow> jsstring" where
  "numToHex num = str ''0x'' @ padStart (toString 16 num) 8 (chr CHR ''0'')"

text \<open>
  \<^verbatim>\<open>toUpperCase\<close> on strings of ASCII characters, where it maps \<^verbatim>\<open>a-z\<close> to \<^verbatim>\<open>A-Z\<close> and
  keeps everything else. The program applies it only to register names, which are the
  first capture group of the register pattern (ASCII letters and digits), and to the
  literals it looks up.
\<close>

definition upperChar :: "jschar \<Rightarrow> jschar" where
  "upperChar c = (if 0x61 \<le> c \<and> c \<le> 0x7A then c - 0x20 else c)"

definition toUpperCase :: "jsstring \<Rightarrow> jsstring" where
  "toUpperCase s = map upperChar s"

section \<open>The register-line parser\<close>

record RegisterInfo =
  register :: jsstring
  "value" :: nat

text \<open>
  \<^verbatim>\<open>/^([A-Za-z0-9]+)\s*:\s+0x([0-9A-Fa-f]+)$/.exec(line)\<close>, returning the two capture
  groups. The pattern is anchored at both ends (there is no \<^verbatim>\<open>m\<close> flag, so \<^verbatim>\<open>$\<close> is the
  end of the string), and no character class overlaps the piece that follows it
  (letters and digits against white space and the colon, white space against the colon
  and against \<^verbatim>\<open>0\<close>), so each greedy quantifier takes its whole run and backtracking never
  finds another match: the pattern is a scanner from left to right.
\<close>

definition registerPattern :: "jsstring \<Rightarrow> (jsstring \<times> jsstring) option" where
  "registerPattern line =
     (let name = takeWhile isAlnum line; r1 = dropWhile isAlnum line;
          r2 = dropWhile isSpace r1
      in if name = [] then None
         else case r2 of
           [] \<Rightarrow> None
         | c # r3 \<Rightarrow>
             if c \<noteq> chr CHR '':'' then None
             else let ws = takeWhile isSpace r3; r4 = dropWhile isSpace r3
                  in if ws = [] then None
                     else if take 2 r4 = str ''0x'' \<and> drop 2 r4 \<noteq> [] \<and> list_all isHexDigit (drop 2 r4)
                          then Some (name, drop 2 r4)
                          else None)"

definition parseRegisterLine :: "jsstring \<Rightarrow> RegisterInfo option" where
  "parseRegisterLine line =
     (case registerPattern line of
        None \<Rightarrow> None
      | Some (m1, m2) \<Rightarrow> Some \<lparr>register = m1, value = parseInt 16 m2\<rparr>)"

section \<open>The backtrace-line pattern\<close>

text \<open>
  \<^verbatim>\<open>/#(\d+) : ([^@]+)@0x([0-9A-Fa-f]+)\+(\d+) PC:0x([0-9A-Fa-f]+)/.exec(line)\<close>, returning
  the five capture groups. The pattern is not anchored: \<^verbatim>\<open>exec\<close> tries every start
  position from the left and returns the first match. At one start position the match
  is again a scan: every greedy run is followed by a character outside its class
  (\<^verbatim>\<open>\d+\<close> by a space, \<^verbatim>\<open>[^@]+\<close> by \<^verbatim>\<open>@\<close>, the first hexadecimal run by \<^verbatim>\<open>+\<close>), and the
  last run, followed by nothing, takes all the hexadecimal digits there are.
  \<open>backtraceAt\<close> is the attempt at the start of its argument.
\<close>

definition backtraceAt :: "jsstring \<Rightarrow> (jsstring \<times> jsstring \<times> jsstring \<times> jsstring \<times> jsstring) option" where
  "backtraceAt s =
     (if take 1 s \<noteq> str ''#'' then None
      else let m1 = takeWhile isDigit (drop 1 s); r1 = dropWhile isDigit (drop 1 s)
      in if m1 = [] \<or> take 3 r1 \<noteq> str '' : '' then None
      else let m2 = takeWhile (\<lambda>c. c \<noteq> chr CHR ''@'') (drop 3 r1);
               r2 = dropWhile (\<lambda>c. c \<noteq> chr CHR ''@'') (drop 3 r1)
      in if m2 = [] \<or> take 3 r2 \<noteq> str ''@0x'' then None
      else let m3 = takeWhile isHexDigit (drop 3 r2); r3 = dropWhile isHexDigit (drop 3 r2)
      in if m3 = [] \<or> take 1 r3 \<noteq> str ''+'' then None
      else let m4 = takeWhile isDigit (drop 1 r3); r4 = dropWhile isDigit (drop 1 r3)
      in if m4 = [] \<or> take 6 r4 \<noteq> str '' PC:0x'' then None
      else let m5 = takeWhile isHexDigit (drop 6 r4)
      in if m5 = [] then None else Some (m1, m2, m3, m4, m5))"

fun backtracePattern :: "jsstring \<Rightarrow> (jsstring \<times> jsstring \<times> jsstring \<times> jsstring \<times> jsstring) option" where
  "backtracePattern [] = None"
| "backtracePattern (c # cs) =
     (case backtraceAt (c # cs) of
        Some m \<Rightarrow> Some m
      | None \<Rightarrow> backtracePattern cs)"

section \<open>Console, errors and the symbolizer\<close>

text \<open>
  \<^verbatim>\<open>console.log\<close> writes a line to the standard output and \<^verbatim>\<open>console.error\<close> a line
  to the standard error; the state the program changes is these two lists of lines.
\<close>

record console =
  stdout :: "jsstring list"
  stderr :: "jsstring list"

definition console_log :: "jsstring \<Rightarrow> console \<Rightarrow> console" where
  "console_log s c = c\<lparr>stdout := stdout c @ [s]\<rparr>"

definition console_error :: "jsstring \<Rightarrow> console \<Rightarrow> console" where
  "console_error s c = c\<lparr>stderr := stderr c @ [s]\<rparr>"

text \<open>
  An exception ends \<^verbatim>\<open>main\<close>: the missing ELF file, or the rejected promise of
  \<^verbatim>\<open>execAsync\<close> when the \<^verbatim>\<open>addr2line\<close> process cannot be run or exits with an error.
\<close>

datatype error = ElfNotFound | ExecFailed

record Addr2LineResult =
  filePath :: jsstring
  fileName :: jsstring
  line :: nat
  "function" :: jsstring

record BacktraceInfo =
  position :: nat
  name :: jsstring
  fnAddress :: nat
  fnOffset :: nat
  pc :: nat

text \<open>
  \<^verbatim>\<open>addr2Line(address)\<close> runs an external process and reads its output, so it is a
  parameter of the model: \<open>Inl ExecFailed\<close> when \<^verbatim>\<open>execAsync\<close> throws, \<open>Inr None\<close>
  when the function returns \<^verbatim>\<open>undefined\<close> (the output has no \<^verbatim>\<open>file:line\<close>), and
  \<open>Inr (Some r)\<close> when it returns the record \<open>r\<close>.
\<close>

type_synonym symbolizer = "nat \<Rightarrow> error + Addr2LineResult option"

section \<open>Backtrace lines\<close>

definition parseBacktraceLine ::
  "symbolizer \<Rightarrow> jsstring \<Rightarrow> console \<Rightarrow> (error + (Addr2LineResult \<times> BacktraceInfo) option) \<times> console" where
  "parseBacktraceLine addr2Line ln c =
     (case backtracePattern ln of
        None \<Rightarrow> (Inr None, c)
      | Some (m1, m2, m3, m4, m5) \<Rightarrow>
          let bt = \<lparr>position = parseInt 10 m1, name = m2, fnAddress = parseInt 16 m3,
                    fnOffset = parseInt 10 m4, pc = parseInt 16 m5\<rparr>
          in (case addr2Line (pc bt) of
                Inl e \<Rightarrow> (Inl e, c)
              | Inr None \<Rightarrow>
                  (Inr None, console_error (str ''Failed to lookup address: '' @ toString 16 (pc bt)) c)
              | Inr (Some a2l) \<Rightarrow> (Inr (Some (a2l, bt)), c)))"

section \<open>Table output\<close>

text \<open>
  \<^verbatim>\<open>columnWidths\<close> is a JavaScript array of numbers: reading an index that was never
  written gives \<^verbatim>\<open>undefined\<close> (\<open>None\<close>), and writing past the end extends the array.
\<close>

type_synonym jstable = "jsstring list list"

definition getWidth :: "nat option list \<Rightarrow> nat \<Rightarrow> nat option" where
  "getWidth columnWidths i = (if i < length columnWidths then columnWidths ! i else None)"

definition setWidth :: "nat option list \<Rightarrow> nat \<Rightarrow> nat \<Rightarrow> nat option list" where
  "setWidth columnWidths i len =
     (if i < length columnWidths then columnWidths[i := Some len]
      else columnWidths @ replicate (i - length columnWidths) None @ [Some len])"

text \<open>The inner loop of the first pass, from index \<open>i\<close> on, over the cells not yet seen.\<close>

fun widthsOfLine :: "jsstring list \<Rightarrow> nat \<Rightarrow> nat option list \<Rightarrow> nat option list" where
  "widthsOfLine [] i columnWidths = columnWidths"
| "widthsOfLine (entry # rest) i columnWidths =
     (let len = length entry
      in widthsOfLine rest (i + 1)
           (case getWidth columnWidths i of
              None \<Rightarrow> setWidth columnWidths i len
            | Some w \<Rightarrow> if len > w then setWidth columnWidths i len else columnWidths))"

definition columnWidthsOf :: "jstable \<Rightarrow> nat option list" where
  "columnWidthsOf lns = foldl (\<lambda>columnWidths ln. widthsOfLine ln 0 columnWidths) [] lns"

text \<open>
  The inner loop of the second pass. With \<^verbatim>\<open>len\<close> undefined, \<^verbatim>\<open>len + 2\<close> is \<^verbatim>\<open>NaN\<close> and
  \<^verbatim>\<open>padEnd\<close> returns the entry as it is.
\<close>

fun formatLine :: "nat option list \<Rightarrow> jsstring list \<Rightarrow> nat \<Rightarrow> jsstring \<Rightarrow> jsstring" where
  "formatLine columnWidths [] i s = s"
| "formatLine columnWidths (entry # rest) i s =
     formatLine columnWidths rest (i + 1)
       (s @ (case getWidth columnWidths i of
               None \<Rightarrow> entry
             | Some len \<Rightarrow> padEnd entry (len + 2) (chr CHR '' '')))"

definition printAsTable :: "jstable \<Rightarrow> console \<Rightarrow> console" where
  "printAsTable lns c =
     (let columnWidths = columnWidthsOf lns
      in foldl (\<lambda>c ln. console_log (formatLine columnWidths ln 0 []) c) c lns)"

section \<open>The register and fault table\<close>

text \<open>
  The masks come from the module \<^verbatim>\<open>./cfsr\<close>, which is not part of the sources at hand, so
  they are a parameter. The operator \<^verbatim>\<open>&\<close> converts both operands to 32-bit integers, so
  a mask is a 32-bit word.
\<close>

record cfsr_masks =
  MEMFAULTSR_MASK :: "32 word"
  MMARVALID_MASK :: "32 word"
  MLSPERR_MASK :: "32 word"
  MSTKERR_MASK :: "32 word"
  MUNSTKERR_MASK :: "32 word"
  DACCVIOL_MASK :: "32 word"
  IACCVIOL_MASK :: "32 word"
  BUSFAULTSR_MASK :: "32 word"
  BFARVALID_MASK :: "32 word"
  LSPERR_MASK :: "32 word"
  STKERR_MASK :: "32 word"
  UNSTKERR_MASK :: "32 word"
  IMPRECISERR_MASK :: "32 word"
  PRECISERR_MASK :: "32 word"
  IBUSERR_MASK :: "32 word"
  USAGEFAULTSR_MASK :: "32 word"
  DIVBYZERO_MASK :: "32 word"
  UNALIGNED_MASK :: "32 word"
  NOCP_MASK :: "32 word"
  INVPC_MASK :: "32 word"
  INVSTATE_MASK :: "32 word"
  UNDEFINSTR_MASK :: "32 word"

text \<open>
  \<^verbatim>\<open>cfsr & flag\<close> as a condition: the conjunction of the two 32-bit values is not 0.
  The 32-bit value of a number is the number modulo \<open>2 ^ 32\<close>, and 0 for \<open>+\<infinity>\<close>, which is
  \<open>2 ^ 1024\<close> modulo \<open>2 ^ 32\<close>.
\<close>

definition bitSet :: "nat \<Rightarrow> 32 word \<Rightarrow> bool" where
  "bitSet cfsr flag \<longleftrightarrow> (word_of_nat cfsr :: 32 word) AND flag \<noteq> 0"

definition findRegister :: "RegisterInfo list \<Rightarrow> jsstring \<Rightarrow> RegisterInfo option" where
  "findRegister registers reg =
     find (\<lambda>r. toUpperCase (register r) = toUpperCase reg) registers"

text \<open>
  The blocks \<^verbatim>\<open>if (lr) {...}\<close> and \<^verbatim>\<open>if (pc) {...}\<close>, which differ in the name only.
\<close>

definition symbolRow ::
  "symbolizer \<Rightarrow> jsstring \<Rightarrow> RegisterInfo option \<Rightarrow> jstable \<Rightarrow> console \<Rightarrow> (error + jstable) \<times> console" where
  "symbolRow addr2Line nm reg out c =
     (case reg of
        None \<Rightarrow> (Inr out, c)
      | Some r \<Rightarrow>
         (case addr2Line (value r) of
            Inl e \<Rightarrow> (Inl e, c)
          | Inr None \<Rightarrow>
              (Inr out,
               console_error (str ''Failed to lookup '' @ nm @ str '': '' @ toString 16 (value r)) c)
          | Inr (Some a2l) \<Rightarrow>
              (Inr (out @ [[nm, numToHex (value r), function a2l,
                            fileName a2l @ str '':'' @ toString 10 (line a2l)]]), c)))"

definition checkFlag :: "nat \<Rightarrow> 32 word \<Rightarrow> jsstring \<Rightarrow> jsstring list \<Rightarrow> jstable \<Rightarrow> jstable" where
  "checkFlag cfsr flag nm extraColumnsIfSet out =
     (if bitSet cfsr flag then out @ [[[], nm] @ extraColumnsIfSet] else out)"

text \<open>The body of \<^verbatim>\<open>if (cfsrReg) {...}\<close>, with \<^verbatim>\<open>cfsr = cfsrReg.value\<close>.\<close>

definition cfsrRows ::
  "cfsr_masks \<Rightarrow> nat \<Rightarrow> RegisterInfo option \<Rightarrow> RegisterInfo option \<Rightarrow> jstable \<Rightarrow> jstable" where
  "cfsrRows M cfsr mmar bfar out =
     (let out =
            (if bitSet cfsr (MEMFAULTSR_MASK M) then
               (let out = out @ [[[], str ''Memory Management Fault'']];
                    out = checkFlag cfsr (MMARVALID_MASK M) (str ''MMARVALID'')
                            (case mmar of
                               Some r \<Rightarrow> [str ''MMAR: '' @ numToHex (value r)]
                             | None \<Rightarrow> []) out;
                    out = checkFlag cfsr (MLSPERR_MASK M) (str ''MLSPERR'') [] out;
                    out = checkFlag cfsr (MSTKERR_MASK M) (str ''MSTKERR'') [] out;
                    out = checkFlag cfsr (MUNSTKERR_MASK M) (str ''MUNSTKERR'') [] out;
                    out = checkFlag cfsr (DACCVIOL_MASK M) (str ''DACCVIOL'') [] out;
                    out = checkFlag cfsr (IACCVIOL_MASK M) (str ''IACCVIOL'') [] out
                in out)
             else out);
          out =
            (if bitSet cfsr (BUSFAULTSR_MASK M) then
               (let out = out @ [[[], str ''Bus Fault'']];
                    out = checkFlag cfsr (BFARVALID_MASK M) (str ''BFARVALID'')
                            (case bfar of
                               Some r \<Rightarrow> [str ''BFAR: '' @ numToHex (value r)]
                             | None \<Rightarrow> []) out;
                    out = checkFlag cfsr (LSPERR_MASK M) (str ''LSPERR'') [] out;
                    out = checkFlag cfsr (STKERR_MASK M) (str ''STKERR'') [] out;
                    out = checkFlag cfsr (UNSTKERR_MASK M) (str ''UNSTKERR'') [] out;
                    out = checkFlag cfsr (IMPRECISERR_MASK M) (str ''IMPRECISERR'') [] out;
                    out = checkFlag cfsr (PRECISERR_MASK M) (str ''PRECISERR'') [] out;
                    out = checkFlag cfsr (IBUSERR_MASK M) (str ''IBUSERR'') [] out
                in out)
             else out);
          out =
            (if bitSet cfsr (USAGEFAULTSR_MASK M) then
               (let out = out @ [[[], str ''Usage Fault'']];
                    out = checkFlag cfsr (DIVBYZERO_MASK M) (str ''DIVBYZERO'') [] out;
                    out = checkFlag cfsr (UNALIGNED_MASK M) (str ''UNALIGNED'') [] out;
                    out = checkFlag cfsr (NOCP_MASK M) (str ''NOCP'') [] out;
                    out = checkFlag cfsr (INVPC_MASK M) (str ''INVPC'') [] out;
                    out = checkFlag cfsr (INVSTATE_MASK M) (str ''INVSTATE'') [] out;
                    out = checkFlag cfsr (UNDEFINSTR_MASK M) (str ''UNDEFINSTR'') [] out
                in out)
             else out)
      in out)"

text \<open>
  \<open>registerRows\<close> is \<^verbatim>\<open>printRegisters\<close> up to the table \<^verbatim>\<open>out\<close> it has built; an exception
  of the symbolizer leaves the function before anything is printed.
\<close>

definition registerRows ::
  "cfsr_masks \<Rightarrow> symbolizer \<Rightarrow> RegisterInfo list \<Rightarrow> console \<Rightarrow> (error + jstable) \<times> console" where
  "registerRows M addr2Line registers c =
     (let out = [[str ''Register'', str ''Value'']];
          lr = findRegister registers (str ''LR'');
          pc = findRegister registers (str ''PC'')
      in case symbolRow addr2Line (str ''LR'') lr out c of
           (Inl e, c) \<Rightarrow> (Inl e, c)
         | (Inr out, c) \<Rightarrow>
        (case symbolRow addr2Line (str ''PC'') pc out c of
           (Inl e, c) \<Rightarrow> (Inl e, c)
         | (Inr out, c) \<Rightarrow>
             let mmar = findRegister registers (str ''MMAR'');
                 bfar = findRegister registers (str ''BFAR'');
                 cfsrReg = findRegister registers (str ''CFSR'')
             in (Inr (case cfsrReg of
                        None \<Rightarrow> out
                      | Some r \<Rightarrow> cfsrRows M (value r) mmar bfar out), c)))"

definition printRegisters ::
  "cfsr_masks \<Rightarrow> symbolizer \<Rightarrow> RegisterInfo list \<Rightarrow> console \<Rightarrow> (error + unit) \<times> console" where
  "printRegisters M addr2Line registers c =
     (case registerRows M addr2Line registers c of
        (Inl e, c) \<Rightarrow> (Inl e, c)
      | (Inr out, c) \<Rightarrow> (Inr (), printAsTable out c))"

section \<open>The main function\<close>

text \<open>\<^verbatim>\<open>faultText.split('\n')\<close>: the pieces between line feeds, at least one.\<close>

fun split :: "jsstring \<Rightarrow> jsstring list" where
  "split [] = [[]]"
| "split (c # cs) =
     (if c = 0x0A then [] # split cs
      else case split cs of
             [] \<Rightarrow> [[c]]
           | l # ls \<Rightarrow> (c # l) # ls)"

text \<open>
  \<^verbatim>\<open>line.replace(/^recv: /i, '')\<close>. With the flag \<^verbatim>\<open>i\<close> (and no flag \<^verbatim>\<open>u\<close>) two characters
  match when their upper-case forms agree, and a character outside ASCII never matches
  an ASCII one, so a letter of the pattern matches its two cases and nothing else.
\<close>

definition stripRecv :: "jsstring \<Rightarrow> jsstring" where
  "stripRecv ln =
     (if list_all2 (\<lambda>a b. upperChar a = upperChar b) (take 6 ln) (str ''recv: '')
      then drop 6 ln else ln)"

text \<open>The loop that collects the registers, in the order of the lines.\<close>

fun parseRegisters :: "jsstring list \<Rightarrow> RegisterInfo list" where
  "parseRegisters [] = []"
| "parseRegisters (ln # lns) =
     (case parseRegisterLine ln of
        None \<Rightarrow> parseRegisters lns
      | Some r \<Rightarrow> r # parseRegisters lns)"

definition backtraceRow :: "Addr2LineResult \<times> BacktraceInfo \<Rightarrow> jsstring list" where
  "backtraceRow bt =
     [str ''#'' @ toString 10 (position (snd bt)),
      function (fst bt) @ (if name (snd bt) = str ''unknown'' then []
                           else str '' ('' @ name (snd bt) @ str '')''),
      str ''@ '' @ numToHex (fnAddress (snd bt)) @ str '' + '' @ toString 10 (fnOffset (snd bt)),
      str ''PC:'' @ numToHex (pc (snd bt)),
      fileName (fst bt) @ str '':'' @ toString 10 (line (fst bt))]"

text \<open>The loop over the lines that fills \<^verbatim>\<open>btLines\<close>.\<close>

fun backtraceLoop ::
  "symbolizer \<Rightarrow> jsstring list \<Rightarrow> jstable \<Rightarrow> console \<Rightarrow> (error + jstable) \<times> console" where
  "backtraceLoop addr2Line [] btLines c = (Inr btLines, c)"
| "backtraceLoop addr2Line (ln # lns) btLines c =
     (case parseBacktraceLine addr2Line ln c of
        (Inl e, c') \<Rightarrow> (Inl e, c')
      | (Inr None, c') \<Rightarrow> backtraceLoop addr2Line lns btLines c'
      | (Inr (Some bt), c') \<Rightarrow> backtraceLoop addr2Line lns (btLines @ [backtraceRow bt]) c')"

definition btHeader :: jstable where
  "btHeader =
     [[], [str ''Backtrace''],
      [str ''#'', str ''Function'', str ''Address'', str ''PC'', str ''File:Line'']]"

text \<open>
  The fault text comes from the file or, when no file is given or it does not exist,
  from the prompt, after the line \<^verbatim>\<open>Enter Fault Log:\<close>. Reading either is input, so the
  text read is a parameter, and so is whether the ELF file exists.
\<close>

datatype faultInput = FromFile jsstring | FromPrompt jsstring

definition main ::
  "cfsr_masks \<Rightarrow> symbolizer \<Rightarrow> bool \<Rightarrow> faultInput \<Rightarrow> (error + unit) \<times> console" where
  "main M addr2Line elfExists input =
     (let c = \<lparr>stdout = [], stderr = []\<rparr>
      in if \<not> elfExists then (Inl ElfNotFound, c)
         else
           let (faultText, c) =
                 (case input of
                    FromFile t \<Rightarrow> (t, c)
                  | FromPrompt t \<Rightarrow> (t, console_log (str ''Enter Fault Log:'') c));
               lns = split faultText;
               lns = map stripRecv lns;
               registers = parseRegisters lns
           in case printRegisters M addr2Line registers c of
                (Inl e, c) \<Rightarrow> (Inl e, c)
              | (Inr u, c) \<Rightarrow>
                 (case backtraceLoop addr2Line lns btHeader c of
                    (Inl e, c) \<Rightarrow> (Inl e, c)
                  | (Inr btLines, c) \<Rightarrow> (Inr (), printAsTable btLines c)))"

section \<open>The decoder as the specification describes it\<close>

text \<open>
  The specification presents the CFSR decoder as three category blocks in a fixed
  order, each a header row followed by one row for every flag of the category whose
  mask has a bit in common with the value, in the order of the category's table.
  A flag is its mask, its name and the extra columns of its row.
\<close>

type_synonym flag = "32 word \<times> jsstring \<times> jsstring list"

definition findingRows :: "nat \<Rightarrow> flag list \<Rightarrow> jstable" where
  "findingRows v flags =
     map (\<lambda>(m, nm, extra). [[], nm] @ extra) (filter (\<lambda>(m, nm, extra). bitSet v m) flags)"

definition categoryBlock :: "nat \<Rightarrow> 32 word \<Rightarrow> jsstring \<Rightarrow> flag list \<Rightarrow> jstable" where
  "categoryBlock v topMask title flags =
     (if bitSet v topMask then [[], title] # findingRows v flags else [])"

definition addressDetail :: "string \<Rightarrow> RegisterInfo option \<Rightarrow> jsstring list" where
  "addressDetail label reg =
     (case reg of Some r \<Rightarrow> [str label @ numToHex (value r)] | None \<Rightarrow> [])"

definition memoryFlags :: "cfsr_masks \<Rightarrow> RegisterInfo option \<Rightarrow> flag list" where
  "memoryFlags M mmar =
     [(MMARVALID_MASK M, str ''MMARVALID'', addressDetail ''MMAR: '' mmar),
      (MLSPERR_MASK M, str ''MLSPERR'', []),
      (MSTKERR_MASK M, str ''MSTKERR'', []),
      (MUNSTKERR_MASK M, str ''MUNSTKERR'', []),
      (DACCVIOL_MASK M, str ''DACCVIOL'', []),
      (IACCVIOL_MASK M, str ''IACCVIOL'', [])]"

definition busFlags :: "cfsr_masks \<Rightarrow> RegisterInfo option \<Rightarrow> flag list" where
  "busFlags M bfar =
     [(BFARVALID_MASK M, str ''BFARVALID'', addressDetail ''BFAR: '' bfar),
      (LSPERR_MASK M, str ''LSPERR'', []),
      (STKERR_MASK M, str ''STKERR'', []),
      (UNSTKERR_MASK M, str ''UNSTKERR'', []),
      (IMPRECISERR_MASK M, str ''IMPRECISERR'', []),
      (PRECISERR_MASK M, str ''PRECISERR'', []),
      (IBUSERR_MASK M, str ''IBUSERR'', [])]"

definition usageFlags :: "cfsr_masks \<Rightarrow> flag list" where
  "usageFlags M =
     [(DIVBYZERO_MASK M, str ''DIVBYZERO'', []),
      (UNALIGNED_MASK M, str ''UNALIGNED'', []),
      (NOCP_MASK M, str ''NOCP'', []),
      (INVPC_MASK M, str ''INVPC'', []),
      (INVSTATE_MASK M, str ''INVSTATE'', []),
      (UNDEFINSTR_MASK M, str ''UNDEFINSTR'', [])]"

definition decode :: "cfsr_masks \<Rightarrow> nat \<Rightarrow> RegisterInfo option \<Rightarrow> RegisterInfo option \<Rightarrow> jstable" where
  "decode M v mmar bfar =
     categoryBlock v (MEMFAULTSR_MASK M) (str ''Memory Management Fault'') (memoryFlags M mmar) @
     categoryBlock v (BUSFAULTSR_MASK M) (str ''Bus Fault'') (busFlags M bfar) @
     categoryBlock v (USAGEFAULTSR_MASK M) (str ''Usage Fault'') (usageFlags M)"

section \<open>Concrete inputs\<close>

text \<open>
  The masks of the Cortex-M CFSR as the architecture defines them, for the examples:
  the memory management status is bits 0 to 7, the bus fault status bits 8 to 15 and
  the usage fault status bits 16 to 31.
\<close>

definition cortexM :: cfsr_masks where
  "cortexM =
     \<lparr>MEMFAULTSR_MASK = 0xFF, MMARVALID_MASK = 0x80, MLSPERR_MASK = 0x20,
      MSTKERR_MASK = 0x10, MUNSTKERR_MASK = 0x08, DACCVIOL_MASK = 0x02, IACCVIOL_MASK = 0x01,
      BUSFAULTSR_MASK = 0xFF00, BFARVALID_MASK = 0x8000, LSPERR_MASK = 0x2000,
      STKERR_MASK = 0x1000, UNSTKERR_MASK = 0x0800, IMPRECISERR_MASK = 0x0400,
      PRECISERR_MASK = 0x0200, IBUSERR_MASK = 0x0100,
      USAGEFAULTSR_MASK = 0xFFFF0000, DIVBYZERO_MASK = 0x02000000,
      UNALIGNED_MASK = 0x01000000, NOCP_MASK = 0x00080000, INVPC_MASK = 0x00040000,
      INVSTATE_MASK = 0x00020000, UNDEFINSTR_MASK = 0x00010000\<rparr>"

text \<open>A symbolizer that resolves no address, and one that resolves every address.\<close>

definition unresolved :: symbolizer where
  "unresolved address = Inr None"

definition resolved :: symbolizer where
  "resolved address =
     Inr (Some \<lparr>filePath = str ''src/gcode.cpp'', fileName = str ''gcode.cpp'', line = 339,
                function = str ''process''\<rparr>)"

definition console0 :: console where
  "console0 = \<lparr>stdout = [], stderr = []\<rparr>"

text \<open>
  A casing of a string: every character is the character of the string at its place or
  the upper-case form of that character.
\<close>

definition casingOf :: "jsstring \<Rightarrow> jsstring \<Rightarrow> bool" where
  "casingOf p s \<longleftrightarrow> list_all2 (\<lambda>a b. a = b \<or> a = upperChar b) p s"

text \<open>The fault text of an input, whichever way it was read.\<close>

definition faultTextOf :: "faultInput \<Rightarrow> jsstring" where
  "faultTextOf input = (case input of FromFile t \<Rightarrow> t | FromPrompt t \<Rightarrow> t)"

section \<open>Table rendering as the specification describes it\<close>

text \<open>
  The width of a column is the greatest length of a cell at that position, over the
  rows that have a cell there. A cell is rendered left-aligned: its text, spaces up to
  the width of its column, and two more spaces. A row is rendered as the cells it has.
\<close>

definition columnWidth :: "jstable \<Rightarrow> nat \<Rightarrow> nat" where
  "columnWidth rows i = Max (set (map (\<lambda>r. length (r ! i)) (filter (\<lambda>r. i < length r) rows)))"

definition renderCell :: "jstable \<Rightarrow> nat \<Rightarrow> jsstring \<Rightarrow> jsstring" where
  "renderCell rows i entry =
     entry @ replicate (columnWidth rows i - length entry) (chr CHR '' '') @ str ''  ''"

definition renderRow :: "jstable \<Rightarrow> jsstring list \<Rightarrow> jsstring" where
  "renderRow rows row = concat (map (\<lambda>i. renderCell rows i (row ! i)) [0..<length row])"

definition renderTable :: "jstable \<Rightarrow> jsstring list" where
  "renderTable rows = map (renderRow rows) rows"



section \<open>Properties\<close>

subsection \<open>The CFSR decoder\<close>

lemma checkFlag_append:
  "checkFlag v m nm extra out = out @ findingRows v [(m, nm, extra)]"
  by (simp add: checkFlag_def findingRows_def)

lemma findingRows_Cons2:
  "findingRows v (f # g # fs) = findingRows v [f] @ findingRows v (g # fs)"
  by (cases f) (simp add: findingRows_def)

lemma cfsrRows_append_decode: "cfsrRows M v mmar bfar out = out @ decode M v mmar bfar"
  by (simp add: cfsrRows_def decode_def categoryBlock_def memoryFlags_def busFlags_def
      usageFlags_def addressDetail_def checkFlag_append findingRows_Cons2 Let_def)

lemma bitSet_0: "\<not> bitSet 0 m"
  by (simp add: bitSet_def)

lemma header_notin_findings:
  "\<forall>f \<in> set flags. fst (snd f) \<noteq> title \<Longrightarrow> [[], title] \<notin> set (findingRows v flags)"
  by (auto simp: findingRows_def)

lemma titles_distinct:
  "str ''Memory Management Fault'' \<noteq> str ''Bus Fault''"
  "str ''Memory Management Fault'' \<noteq> str ''Usage Fault''"
  "str ''Bus Fault'' \<noteq> str ''Usage Fault''"
  by (simp_all add: str_def)

lemma memory_header:
  "[[], str ''Memory Management Fault''] \<in> set (decode M v mmar bfar) \<longleftrightarrow>
   bitSet v (MEMFAULTSR_MASK M)"
  by (simp add: decode_def categoryBlock_def titles_distinct header_notin_findings
      memoryFlags_def busFlags_def usageFlags_def str_def)

lemma bus_header:
  "[[], str ''Bus Fault''] \<in> set (decode M v mmar bfar) \<longleftrightarrow> bitSet v (BUSFAULTSR_MASK M)"
  by (simp add: decode_def categoryBlock_def titles_distinct titles_distinct[symmetric]
      header_notin_findings memoryFlags_def busFlags_def usageFlags_def str_def)

lemma usage_header:
  "[[], str ''Usage Fault''] \<in> set (decode M v mmar bfar) \<longleftrightarrow> bitSet v (USAGEFAULTSR_MASK M)"
  by (simp add: decode_def categoryBlock_def titles_distinct titles_distinct[symmetric]
      header_notin_findings memoryFlags_def busFlags_def usageFlags_def str_def)

text \<open>
  Claim C1. For every CFSR value \<open>v\<close> (any number, so every 32-bit value), whatever the
  masks are, the rows the decoder adds to the table are those of \<open>decode\<close>: the Memory
  Management block, the Bus Fault block and the Usage Fault block in this order, where a
  block is there exactly when \<open>v\<close> has a bit of the category's mask, and consists of the
  header row followed by the rows of exactly those flags of the category, in the order
  of its table, whose mask has a bit in common with \<open>v\<close>. A header row is in the output
  if and only if \<open>v\<close> has a bit of its category's mask, and the value 0 adds no row.
\<close>

theorem cfsrRows_decode:
  "cfsrRows M v mmar bfar out = out @ decode M v mmar bfar \<and>
   ([[], str ''Memory Management Fault''] \<in> set (decode M v mmar bfar) \<longleftrightarrow>
      bitSet v (MEMFAULTSR_MASK M)) \<and>
   ([[], str ''Bus Fault''] \<in> set (decode M v mmar bfar) \<longleftrightarrow> bitSet v (BUSFAULTSR_MASK M)) \<and>
   ([[], str ''Usage Fault''] \<in> set (decode M v mmar bfar) \<longleftrightarrow>
      bitSet v (USAGEFAULTSR_MASK M)) \<and>
   cfsrRows M 0 mmar bfar out = out"
proof -
  have "decode M 0 mmar bfar = []"
    by (simp add: decode_def categoryBlock_def bitSet_0)
  then have "cfsrRows M 0 mmar bfar out = out"
    by (simp add: cfsrRows_append_decode)
  then show ?thesis
    using cfsrRows_append_decode memory_header bus_header usage_header by blast
qed

text \<open>
  With the masks of the architecture, the value \<^verbatim>\<open>0x00018282\<close> and an MMAR register
  but no BFAR register.
\<close>

theorem cfsrRows_decode_witness:
  "cfsrRows cortexM 0x18282 (Some \<lparr>register = str ''MMAR'', value = 0x20001234\<rparr>) None
     [[str ''Register'', str ''Value'']] =
   [[str ''Register'', str ''Value''],
    [[], str ''Memory Management Fault''],
    [[], str ''MMARVALID'', str ''MMAR: 0x20001234''],
    [[], str ''DACCVIOL''],
    [[], str ''Bus Fault''],
    [[], str ''BFARVALID''],
    [[], str ''PRECISERR''],
    [[], str ''Usage Fault''],
    [[], str ''UNDEFINSTR'']] \<and>
   cfsrRows cortexM 0 None None [] = []"
  using cfsrRows_decode [of cortexM "0x18282"
      "Some \<lparr>register = str ''MMAR'', value = 0x20001234\<rparr>" None
      "[[str ''Register'', str ''Value'']]"]
    cfsrRows_decode [of cortexM 0 None None "[]"]
  by (simp add: decode_def categoryBlock_def findingRows_def memoryFlags_def busFlags_def
      usageFlags_def addressDetail_def bitSet_def cortexM_def numToHex_def padStart_def
      toString_def digitString.simps digitChar_def chr_def str_def)

subsection \<open>Evaluating the parsers on concrete lines\<close>

lemmas parser_defs =
  parseRegisterLine_def registerPattern_def backtraceAt_def str_def chr_def isAlnum_def
  isSpace_def isHexDigit_def isDigit_def parseInt_def digitsValue_def numberValue_def digitValue_def findRegister_def
  toUpperCase_def upperChar_def

lemma replicate_numeral: "replicate (numeral k) x = x # replicate (pred_numeral k) x"
  by (simp add: numeral_eq_Suc)

lemmas printer_defs =
  printAsTable_def columnWidthsOf_def getWidth_def setWidth_def padEnd_def console_log_def
  console_error_def numToHex_def padStart_def toString_def digitString.simps digitChar_def replicate_numeral

subsection \<open>Looking a register up by name\<close>

lemma parseRegisters_append:
  "parseRegisters (xs @ ys) = parseRegisters xs @ parseRegisters ys"
  by (induction xs) (auto split: option.splits)

lemma parseRegisters_no_match:
  "\<forall>l \<in> set pre. \<forall>r'. parseRegisterLine l = Some r' \<longrightarrow> \<not> P r' \<Longrightarrow>
   find P (parseRegisters pre @ rs) = find P rs"
  by (induction pre) (auto split: option.splits)

text \<open>
  Claim C3 says that of several register lines with the same name the last one is the
  one looked up. The lookup is \<^verbatim>\<open>Array.prototype.find\<close>, which returns the first
  element that matches: with the two lines \<^verbatim>\<open>CFSR : 0x00000001\<close> and
  \<^verbatim>\<open>CFSR : 0x00010000\<close> the register found has the value 1, not the value of the last
  line, and the report decodes the value 1 (the flag IACCVIOL of the Memory Management
  block, not UNDEFINSTR of the Usage Fault block).
\<close>

theorem findRegister_last_counterexample:
  "parseRegisters [str ''CFSR : 0x00000001'', str ''CFSR : 0x00010000''] =
     [\<lparr>register = str ''CFSR'', value = 1\<rparr>, \<lparr>register = str ''CFSR'', value = 0x10000\<rparr>] \<and>
   findRegister
     (parseRegisters [str ''CFSR : 0x00000001'', str ''CFSR : 0x00010000'']) (str ''CFSR'') =
     Some \<lparr>register = str ''CFSR'', value = 1\<rparr> \<and>
   findRegister
     (parseRegisters [str ''CFSR : 0x00000001'', str ''CFSR : 0x00010000'']) (str ''CFSR'') \<noteq>
     Some \<lparr>register = str ''CFSR'', value = 0x10000\<rparr> \<and>
   main cortexM unresolved True
     (FromFile (str ''CFSR : 0x00000001'' @ [0x0A] @ str ''CFSR : 0x00010000'')) =
     (Inr (),
      \<lparr>stdout =
         [str ''Register  Value                    '',
          str ''          Memory Management Fault  '',
          str ''          IACCVIOL                 '',
          [],
          str ''Backtrace  '',
          str ''#          Function  Address  PC  File:Line  ''],
       stderr = []\<rparr>)"
  by (simp add: main_def printRegisters_def registerRows_def symbolRow_def cfsrRows_def
      checkFlag_def bitSet_def cortexM_def unresolved_def stripRecv_def btHeader_def
      parseBacktraceLine_def Let_def parser_defs printer_defs)

text \<open>
  Claim C3, amended: the first occurrence wins. When a line of the input parses to a
  register whose name is, up to case, one of the names looked up (LR, PC, CFSR, MMAR,
  BFAR), and no earlier line parses to a register of that name, then the lookup of that
  name among the registers parsed from the input returns the register of this line,
  whatever lines follow.
\<close>

theorem findRegister_first_occurrence:
  assumes "reg \<in> set [str ''LR'', str ''PC'', str ''CFSR'', str ''MMAR'', str ''BFAR'']"
    and "parseRegisterLine ln = Some r"
    and "toUpperCase (register r) = toUpperCase reg"
    and "\<forall>l \<in> set pre. \<forall>r'. parseRegisterLine l = Some r' \<longrightarrow>
           toUpperCase (register r') \<noteq> toUpperCase reg"
  shows "findRegister (parseRegisters (pre @ ln # post)) reg = Some r"
proof -
  have "findRegister (parseRegisters (pre @ ln # post)) reg =
        find (\<lambda>r. toUpperCase (register r) = toUpperCase reg) (parseRegisters (ln # post))"
    unfolding findRegister_def parseRegisters_append
    by (rule parseRegisters_no_match) (use assms(4) in blast)
  with assms(2,3) show ?thesis by simp
qed

theorem findRegister_first_occurrence_witness:
  "findRegister
     (parseRegisters
        [str ''R0 : 0x00000000'', str ''cfsr : 0x00000001'', str ''CFSR : 0x00010000''])
     (str ''CFSR'') =
   Some \<lparr>register = str ''cfsr'', value = 1\<rparr>"
proof -
  have 1: "str ''CFSR'' \<in> set [str ''LR'', str ''PC'', str ''CFSR'', str ''MMAR'', str ''BFAR'']"
    by simp
  have 2: "parseRegisterLine (str ''cfsr : 0x00000001'') =
           Some \<lparr>register = str ''cfsr'', value = 1\<rparr>"
    by (simp add: parser_defs)
  have 3: "toUpperCase (register \<lparr>register = str ''cfsr'', value = 1\<rparr>) =
           toUpperCase (str ''CFSR'')"
    by (simp add: parser_defs)
  have 4: "\<forall>l \<in> set [str ''R0 : 0x00000000'']. \<forall>r'. parseRegisterLine l = Some r' \<longrightarrow>
             toUpperCase (register r') \<noteq> toUpperCase (str ''CFSR'')"
    by (simp add: parser_defs)
  from findRegister_first_occurrence [OF 1 2 3 4, of "[str ''CFSR : 0x00010000'']"]
  show ?thesis by simp
qed

subsection \<open>Registers the symbolizer does not resolve\<close>

lemma decode_rows_hd: "row \<in> set (decode M v mmar bfar) \<Longrightarrow> take 1 row = [[]]"
  by (auto simp: decode_def categoryBlock_def findingRows_def split: if_splits)

lemma names_distinct:
  "str ''LR'' \<noteq> str ''PC''" "str ''Register'' \<noteq> str ''LR''" "str ''Register'' \<noteq> str ''PC''"
  "str ''LR'' \<noteq> []" "str ''PC'' \<noteq> []"
  by (simp_all add: str_def)

text \<open>
  Claim C2 says that the row of an LR or PC register the symbolizer fails to resolve
  stays in the table, with blank symbol columns. The source adds the row in the
  \<^verbatim>\<open>else\<close> branch only: with the single line \<^verbatim>\<open>LR : 0x08001234\<close> and a symbolizer that
  resolves nothing, the table is the header row alone, the row with blank symbol columns
  is not in it, and the report has no LR line; the failure is on the standard error.
\<close>

theorem unresolved_register_row_counterexample:
  "registerRows cortexM unresolved [\<lparr>register = str ''LR'', value = 0x08001234\<rparr>] console0 =
     (Inr [[str ''Register'', str ''Value'']],
      \<lparr>stdout = [], stderr = [str ''Failed to lookup LR: 8001234'']\<rparr>) \<and>
   [str ''LR'', str ''0x08001234'', [], []] \<notin> set [[str ''Register'', str ''Value'']] \<and>
   main cortexM unresolved True (FromFile (str ''LR : 0x08001234'')) =
     (Inr (),
      \<lparr>stdout =
         [str ''Register  Value  '',
          [],
          str ''Backtrace  '',
          str ''#          Function  Address  PC  File:Line  ''],
       stderr = [str ''Failed to lookup LR: 8001234'']\<rparr>)"
  by (simp add: main_def printRegisters_def registerRows_def symbolRow_def console0_def
      unresolved_def stripRecv_def btHeader_def parseBacktraceLine_def Let_def
      parser_defs printer_defs)

text \<open>
  Claim C2, amended: the row is dropped. When the LR (or PC) register was parsed, the
  symbolizer fails to resolve its value and the table is built (no lookup raised an
  exception), then no row of the table has LR (or PC) in its first cell, the line
  \<^verbatim>\<open>Failed to lookup LR: <value in hexadecimal>\<close> is on the standard error, and nothing
  was written to the standard output.
\<close>

theorem unresolved_register_row_dropped:
  assumes "nm = str ''LR'' \<or> nm = str ''PC''"
    and "findRegister registers nm = Some r"
    and "addr2Line (value r) = Inr None"
    and "registerRows M addr2Line registers c = (Inr t, c')"
  shows "(\<forall>row \<in> set t. take 1 row \<noteq> [nm]) \<and>
     str ''Failed to lookup '' @ nm @ str '': '' @ toString 16 (value r) \<in> set (stderr c') \<and>
     stdout c' = stdout c"
  using assms names_distinct names_distinct[symmetric]
  by (auto simp: registerRows_def symbolRow_def Let_def console_error_def cfsrRows_append_decode
      dest!: decode_rows_hd split: option.splits sum.splits)

theorem unresolved_register_row_dropped_witness:
  "list_all (\<lambda>row. take 1 row \<noteq> [str ''PC''])
     [[str ''Register'', str ''Value''],
      [str ''LR'', str ''0x0001c442'', str ''process'', str ''gcode.cpp:339'']] \<and>
   str ''Failed to lookup PC: 8001234'' \<in> set [str ''Failed to lookup PC: 8001234''] \<and>
   registerRows cortexM (resolved(0x08001234 := Inr None))
     [\<lparr>register = str ''PC'', value = 0x08001234\<rparr>, \<lparr>register = str ''LR'', value = 0x1C442\<rparr>]
     console0 =
     (Inr [[str ''Register'', str ''Value''],
           [str ''LR'', str ''0x0001c442'', str ''process'', str ''gcode.cpp:339'']],
      \<lparr>stdout = [], stderr = [str ''Failed to lookup PC: 8001234'']\<rparr>)"
proof -
  let ?regs = "[\<lparr>register = str ''PC'', value = 0x08001234\<rparr>,
                \<lparr>register = str ''LR'', value = 0x1C442\<rparr>]"
  let ?a2l = "resolved(0x08001234 := Inr None)"
  let ?t = "[[str ''Register'', str ''Value''],
             [str ''LR'', str ''0x0001c442'', str ''process'', str ''gcode.cpp:339'']]"
  let ?c = "\<lparr>stdout = [], stderr = [str ''Failed to lookup PC: 8001234'']\<rparr>"
  have 1: "str ''PC'' = str ''LR'' \<or> str ''PC'' = str ''PC''"
    by simp
  have 2: "findRegister ?regs (str ''PC'') = Some \<lparr>register = str ''PC'', value = 0x08001234\<rparr>"
    by (simp add: parser_defs)
  have 3: "?a2l (value \<lparr>register = str ''PC'', value = 0x08001234\<rparr>) = Inr None"
    by simp
  have 4: "registerRows cortexM ?a2l ?regs console0 = (Inr ?t, ?c)"
    by (simp add: registerRows_def symbolRow_def console0_def resolved_def Let_def
        parser_defs printer_defs)
  from unresolved_register_row_dropped [OF 1 2 3 4] 4
  show ?thesis
    by (simp add: list_all_iff)
qed

subsection \<open>Backtrace lines the symbolizer does not resolve\<close>

lemma symbolRow_no_exception:
  "\<forall>a e. addr2Line a \<noteq> Inl e \<Longrightarrow> \<exists>t c'. symbolRow addr2Line nm reg out c = (Inr t, c')"
  by (auto simp: symbolRow_def split: option.splits sum.splits)

lemma registerRows_no_exception:
  assumes "\<forall>a e. addr2Line a \<noteq> Inl e"
  shows "\<exists>t c'. registerRows M addr2Line registers c = (Inr t, c')"
proof -
  obtain t1 c1 where 1: "symbolRow addr2Line (str ''LR'') (findRegister registers (str ''LR''))
      [[str ''Register'', str ''Value'']] c = (Inr t1, c1)"
    using symbolRow_no_exception [OF assms] by blast
  obtain t2 c2 where 2: "symbolRow addr2Line (str ''PC'') (findRegister registers (str ''PC''))
      t1 c1 = (Inr t2, c2)"
    using symbolRow_no_exception [OF assms] by blast
  show ?thesis
    by (simp add: registerRows_def Let_def 1 2)
qed

lemma parseBacktraceLine_no_exception:
  "\<forall>a e. addr2Line a \<noteq> Inl e \<Longrightarrow> \<exists>fr c'. parseBacktraceLine addr2Line ln c = (Inr fr, c')"
  by (auto simp: parseBacktraceLine_def Let_def split: option.splits sum.splits)

lemma backtraceLoop_no_exception:
  assumes "\<forall>a e. addr2Line a \<noteq> Inl e"
  shows "\<exists>t c'. backtraceLoop addr2Line lns btLines c = (Inr t, c')"
proof (induction lns arbitrary: btLines c)
  case Nil
  then show ?case by simp
next
  case (Cons ln lns)
  obtain fr c1 where "parseBacktraceLine addr2Line ln c = (Inr fr, c1)"
    using parseBacktraceLine_no_exception [OF assms] by blast
  then show ?case
    using Cons.IH by (cases fr) simp_all
qed

lemma main_no_exception:
  assumes "\<forall>a e. addr2Line a \<noteq> Inl e"
  shows "\<exists>c'. main M addr2Line True input = (Inr (), c')"
proof -
  define c0 where "c0 = (case input of FromFile t \<Rightarrow> \<lparr>stdout = [], stderr = []\<rparr>
     | FromPrompt t \<Rightarrow> console_log (str ''Enter Fault Log:'') \<lparr>stdout = [], stderr = []\<rparr>)"
  define lns where "lns = map stripRecv (split (faultTextOf input))"
  obtain t c1 where 1: "registerRows M addr2Line (parseRegisters lns) c0 = (Inr t, c1)"
    using registerRows_no_exception [OF assms] by blast
  obtain t2 c2 where 2: "backtraceLoop addr2Line lns btHeader (printAsTable t c1) = (Inr t2, c2)"
    using backtraceLoop_no_exception [OF assms] by blast
  show ?thesis
    using 1 2
    by (cases input) (simp_all add: main_def Let_def printRegisters_def c0_def lns_def faultTextOf_def)
qed

text \<open>
  Claim C6. When a line matches the backtrace pattern and the symbolizer fails to
  resolve its PC (the fifth group, read as hexadecimal), \<^verbatim>\<open>parseBacktraceLine\<close> returns
  no frame and no exception, the only effect is the line
  \<^verbatim>\<open>Failed to lookup address: <pc in hexadecimal>\<close> appended to the standard error (the
  standard output, where the report goes, is as it was), and the loop of \<^verbatim>\<open>main\<close> goes
  on with the remaining lines and the same table: the frame is not in it. A lookup that
  fails this way never ends the run: as long as the symbolizer raises no exception,
  whatever it resolves and fails to resolve, \<^verbatim>\<open>main\<close> returns normally.
\<close>

theorem unresolved_frame_omitted:
  assumes "backtracePattern ln = Some (m1, m2, m3, m4, m5)"
    and "addr2Line (parseInt 16 m5) = Inr None"
  shows "parseBacktraceLine addr2Line ln c =
           (Inr None,
            c\<lparr>stderr := stderr c @
                 [str ''Failed to lookup address: '' @ toString 16 (parseInt 16 m5)]\<rparr>) \<and>
         backtraceLoop addr2Line (ln # lns) btLines c =
           backtraceLoop addr2Line lns btLines
             (c\<lparr>stderr := stderr c @
                  [str ''Failed to lookup address: '' @ toString 16 (parseInt 16 m5)]\<rparr>) \<and>
         ((\<forall>a e. addr2Line a \<noteq> Inl e) \<longrightarrow>
            (\<exists>c'. main M addr2Line True input = (Inr (), c')))"
  using assms main_no_exception [of addr2Line M input]
  by (simp add: parseBacktraceLine_def console_error_def Let_def)

theorem unresolved_frame_omitted_witness:
  "backtraceLoop (resolved(0x1C442 := Inr None))
     [str ''#0 : unknown@0x0001C38C+182 PC:0x0001C442'', str ''#1 : main@0x00000100+4 PC:0x00000104'']
     btHeader console0 =
   (Inr (btHeader @
         [[str ''#1'', str ''process (main)'', str ''@ 0x00000100 + 4'', str ''PC:0x00000104'',
           str ''gcode.cpp:339'']]),
    \<lparr>stdout = [], stderr = [str ''Failed to lookup address: 1c442'']\<rparr>)"
proof -
  have 1: "backtracePattern (str ''#0 : unknown@0x0001C38C+182 PC:0x0001C442'') =
           Some (str ''0'', str ''unknown'', str ''0001C38C'', str ''182'', str ''0001C442'')"
    by (simp add: parser_defs)
  have 2: "(resolved(0x1C442 := Inr None)) (parseInt 16 (str ''0001C442'')) = Inr None"
    by (simp add: parser_defs)
  from unresolved_frame_omitted [where addr2Line = "resolved(0x1C442 := Inr None)"
      and lns = "[str ''#1 : main@0x00000100+4 PC:0x00000104'']" and btLines = btHeader
      and c = console0, OF 1 2]
  show ?thesis
    by (simp add: parseBacktraceLine_def backtraceRow_def resolved_def console0_def Let_def
        parser_defs printer_defs)
qed

subsection \<open>The echo prefix\<close>

lemma upperChar_eq:
  "upperChar a = c \<longleftrightarrow> (if 0x61 \<le> a \<and> a \<le> 0x7A then a = c + 0x20 else a = c)"
  by (auto simp: upperChar_def diff_eq_eq)

lemma upperChar_recv:
  "upperChar a = upperChar 0x72 \<longleftrightarrow> a = 0x72 \<or> a = upperChar 0x72"
  "upperChar a = upperChar 0x65 \<longleftrightarrow> a = 0x65 \<or> a = upperChar 0x65"
  "upperChar a = upperChar 0x63 \<longleftrightarrow> a = 0x63 \<or> a = upperChar 0x63"
  "upperChar a = upperChar 0x76 \<longleftrightarrow> a = 0x76 \<or> a = upperChar 0x76"
  "upperChar a = upperChar 0x3A \<longleftrightarrow> a = 0x3A \<or> a = upperChar 0x3A"
  "upperChar a = upperChar 0x20 \<longleftrightarrow> a = 0x20 \<or> a = upperChar 0x20"
  by (auto simp: upperChar_eq upperChar_def[of "numeral k" for k])

lemma casing_recv_iff:
  "casingOf p (str ''recv: '') \<longleftrightarrow>
   list_all2 (\<lambda>a b. upperChar a = upperChar b) p (str ''recv: '')"
  by (simp add: casingOf_def str_def list_all2_Cons2 upperChar_recv)

lemma casing_recv_length: "casingOf p (str ''recv: '') \<Longrightarrow> length p = 6"
  by (auto simp: casingOf_def str_def dest: list_all2_lengthD)

lemma stripRecv_prefix: "casingOf p (str ''recv: '') \<Longrightarrow> stripRecv (p @ l) = l"
  using casing_recv_length [of p] by (simp add: stripRecv_def casing_recv_iff)

lemma stripRecv_cases:
  "stripRecv x = x \<or> (\<exists>p. casingOf p (str ''recv: '') \<and> x = p @ stripRecv x)"
proof (cases "list_all2 (\<lambda>a b. upperChar a = upperChar b) (take 6 x) (str ''recv: '')")
  case True
  then have "casingOf (take 6 x) (str ''recv: '')"
    by (simp add: casing_recv_iff)
  moreover have "x = take 6 x @ stripRecv x"
    using True by (simp add: stripRecv_def)
  ultimately show ?thesis by blast
next
  case False
  then show ?thesis by (simp add: stripRecv_def)
qed

text \<open>
  Claim C7. For every line \<open>l\<close> and every casing \<open>p\<close> of the prefix \<^verbatim>\<open>recv: \<close>, normalizing
  \<open>p @ l\<close> yields \<open>l\<close>, so the register parser and the backtrace parser give on the
  normalized prefixed line what they give on \<open>l\<close>. Nothing else is changed: whatever the
  line \<open>x\<close>, its normalization is \<open>x\<close> itself or \<open>x\<close> without one such prefix.
\<close>

theorem stripRecv_prefixed:
  assumes "casingOf p (str ''recv: '')"
  shows "stripRecv (p @ l) = l \<and>
     parseRegisterLine (stripRecv (p @ l)) = parseRegisterLine l \<and>
     parseBacktraceLine addr2Line (stripRecv (p @ l)) c = parseBacktraceLine addr2Line l c \<and>
     (stripRecv x = x \<or> (\<exists>q. casingOf q (str ''recv: '') \<and> x = q @ stripRecv x))"
  using stripRecv_prefix [OF assms] stripRecv_cases by simp

theorem stripRecv_prefixed_witness:
  "stripRecv (str ''Recv: '' @ str ''CFSR : 0x00010000'') = str ''CFSR : 0x00010000'' \<and>
   parseRegisterLine (stripRecv (str ''Recv: '' @ str ''CFSR : 0x00010000'')) =
     Some \<lparr>register = str ''CFSR'', value = 0x10000\<rparr> \<and>
   parseRegisterLine (str ''CFSR : 0x00010000'') =
     Some \<lparr>register = str ''CFSR'', value = 0x10000\<rparr>"
proof -
  have 1: "casingOf (str ''Recv: '') (str ''recv: '')"
    by (simp add: casingOf_def str_def upperChar_def)
  have 2: "parseRegisterLine (str ''CFSR : 0x00010000'') =
           Some \<lparr>register = str ''CFSR'', value = 0x10000\<rparr>"
    by (simp add: parser_defs)
  from stripRecv_prefixed [OF 1, of "str ''CFSR : 0x00010000''"] 2
  show ?thesis by simp
qed

subsection \<open>The rows of the backtrace table\<close>

lemma length_backtraceRow: "length (backtraceRow bt) = 5"
  by (simp add: backtraceRow_def)

lemma parseBacktraceLine_stdout:
  "parseBacktraceLine a2l ln c = (r, c') \<Longrightarrow> stdout c' = stdout c"
  by (auto simp: parseBacktraceLine_def Let_def console_error_def
      split: option.splits sum.splits prod.splits)

lemma backtraceLoop_rows:
  "backtraceLoop a2l lns rows c = (Inr t, c') \<Longrightarrow>
   \<exists>frames. t = rows @ frames \<and> (\<forall>f \<in> set frames. length f = 5) \<and> stdout c' = stdout c"
proof (induction lns arbitrary: rows c)
  case Nil
  then show ?case by simp
next
  case (Cons ln lns)
  obtain r c1 where p: "parseBacktraceLine a2l ln c = (r, c1)"
    by (cases "parseBacktraceLine a2l ln c")
  then have s: "stdout c1 = stdout c"
    by (rule parseBacktraceLine_stdout)
  show ?case
  proof (cases r)
    case (Inl e)
    with p Cons.prems show ?thesis by simp
  next
    case (Inr fr)
    show ?thesis
    proof (cases fr)
      case None
      with Inr p Cons.prems have "backtraceLoop a2l lns rows c1 = (Inr t, c')"
        by simp
      from Cons.IH [OF this] s show ?thesis by auto
    next
      case (Some bt)
      with Inr p Cons.prems
      have "backtraceLoop a2l lns (rows @ [backtraceRow bt]) c1 = (Inr t, c')"
        by simp
      from Cons.IH [OF this] obtain frames where
        "t = (rows @ [backtraceRow bt]) @ frames" "\<forall>f \<in> set frames. length f = 5"
        "stdout c' = stdout c1"
        by blast
      then have "t = rows @ (backtraceRow bt # frames) \<and>
          (\<forall>f \<in> set (backtraceRow bt # frames). length f = 5) \<and> stdout c' = stdout c"
        using s by (simp add: length_backtraceRow)
      then show ?thesis by blast
    qed
  qed
qed

lemma backtraceLoop_no_match:
  "\<forall>l \<in> set lns. backtracePattern l = None \<Longrightarrow>
   backtraceLoop a2l lns rows c = (Inr rows, c)"
  by (induction lns) (simp_all add: parseBacktraceLine_def)

text \<open>
  Claim C10. Whenever \<^verbatim>\<open>main\<close> gets to print the backtrace table (it returns without an
  exception), the table it prints last consists of the empty row, the row with the one
  cell \<^verbatim>\<open>Backtrace\<close> and the row \<^verbatim>\<open>#\<close>, \<^verbatim>\<open>Function\<close>, \<^verbatim>\<open>Address\<close>, \<^verbatim>\<open>PC\<close>, \<^verbatim>\<open>File:Line\<close>, in
  this order, followed by the frame rows, of five cells each; when no line of the
  input matches the backtrace pattern there is no frame row and the table is these
  three rows.
\<close>

theorem backtrace_table_begins:
  assumes "main M addr2Line elfExists input = (Inr u, c')"
  shows "\<exists>c1 frames.
           c' = printAsTable
                  ([[], [str ''Backtrace''],
                    [str ''#'', str ''Function'', str ''Address'', str ''PC'', str ''File:Line'']] @
                   frames) c1 \<and>
           (\<forall>f \<in> set frames. length f = 5) \<and>
           ((\<forall>l \<in> set (map stripRecv (split (faultTextOf input))). backtracePattern l = None) \<longrightarrow>
              frames = [])"
proof -
  let ?lns = "map stripRecv (split (faultTextOf input))"
  from assms obtain c0 c1 t where
    l: "backtraceLoop addr2Line ?lns btHeader c0 = (Inr t, c1)" and c': "c' = printAsTable t c1"
    by (auto simp: main_def Let_def faultTextOf_def
        split: if_splits faultInput.splits prod.splits sum.splits)
  from backtraceLoop_rows [OF l] obtain frames where
    f: "t = btHeader @ frames" "\<forall>f \<in> set frames. length f = 5"
    by blast
  have "(\<forall>l \<in> set ?lns. backtracePattern l = None) \<longrightarrow> frames = []"
    using l f(1) by (auto simp: backtraceLoop_no_match)
  with f c' show ?thesis
    unfolding btHeader_def by blast
qed

theorem backtrace_table_begins_witness:
  "main cortexM resolved True (FromFile (str ''#0 : unknown@0x0001C38C+182 PC:0x0001C442'')) =
     (Inr (),
      \<lparr>stdout =
         [str ''Register  Value  '',
          [],
          str ''Backtrace  '',
          str ''#          Function  Address             PC             File:Line      '',
          str ''#0         process   @ 0x0001c38c + 182  PC:0x0001c442  gcode.cpp:339  ''],
       stderr = []\<rparr>) \<and>
   (\<exists>c1 frames.
      \<lparr>stdout =
         [str ''Register  Value  '',
          [],
          str ''Backtrace  '',
          str ''#          Function  Address             PC             File:Line      '',
          str ''#0         process   @ 0x0001c38c + 182  PC:0x0001c442  gcode.cpp:339  ''],
       stderr = []\<rparr> =
      printAsTable
        ([[], [str ''Backtrace''],
          [str ''#'', str ''Function'', str ''Address'', str ''PC'', str ''File:Line'']] @
         frames) c1)"
proof -
  have 1: "main cortexM resolved True
             (FromFile (str ''#0 : unknown@0x0001C38C+182 PC:0x0001C442'')) =
     (Inr (),
      \<lparr>stdout =
         [str ''Register  Value  '',
          [],
          str ''Backtrace  '',
          str ''#          Function  Address             PC             File:Line      '',
          str ''#0         process   @ 0x0001c38c + 182  PC:0x0001c442  gcode.cpp:339  ''],
       stderr = []\<rparr>)"
    by (simp add: main_def printRegisters_def registerRows_def symbolRow_def resolved_def
        stripRecv_def btHeader_def parseBacktraceLine_def backtraceRow_def Let_def
        parser_defs printer_defs)
  from backtrace_table_begins [OF 1] 1 show ?thesis
    by blast
qed

subsection \<open>Table rendering\<close>

lemma getWidth_setWidth:
  "getWidth (setWidth ws i len) j = (if j = i then Some len else getWidth ws j)"
  by (auto simp: getWidth_def setWidth_def nth_append)

lemma getWidth_widthsOfLine:
  "getWidth (widthsOfLine cells i ws) j =
     (if i \<le> j \<and> j < i + length cells
      then Some (case getWidth ws j of
                   None \<Rightarrow> length (cells ! (j - i))
                 | Some w \<Rightarrow> max w (length (cells ! (j - i))))
      else getWidth ws j)"
proof (induction cells arbitrary: i ws)
  case Nil
  then show ?case by auto
next
  case (Cons entry rest)
  show ?case
    by (auto simp: Cons.IH Let_def getWidth_setWidth nth_Cons' max_def split: option.splits)
qed

lemma columnWidth_snoc:
  "columnWidth (rows @ [r]) j =
     (if j < length r
      then (if \<exists>r \<in> set rows. j < length r then max (columnWidth rows j) (length (r ! j))
            else length (r ! j))
      else columnWidth rows j)"
proof (cases "j < length r")
  case False
  then show ?thesis by (simp add: columnWidth_def)
next
  case True
  let ?ls = "map (\<lambda>r. length (r ! j)) (filter (\<lambda>r. j < length r) rows)"
  have eq: "columnWidth (rows @ [r]) j = Max (insert (length (r ! j)) (set ?ls))"
    using True by (simp add: columnWidth_def)
  show ?thesis
  proof (cases "\<exists>r \<in> set rows. j < length r")
    case e: True
    then have "set ?ls \<noteq> {}" by (auto simp: filter_empty_conv)
    then have "Max (insert (length (r ! j)) (set ?ls)) = max (length (r ! j)) (Max (set ?ls))"
      by (intro Max_insert) simp_all
    with eq True e show ?thesis
      by (simp add: columnWidth_def max.commute)
  next
    case False
    then have "?ls = []" by (auto simp: filter_empty_conv)
    then have "set ?ls = {}" by simp
    with eq True False show ?thesis
      by (simp del: set_map set_filter)
  qed
qed

lemma getWidth_columnWidthsOf:
  "getWidth (columnWidthsOf rows) j =
     (if \<exists>r \<in> set rows. j < length r then Some (columnWidth rows j) else None)"
proof (induction rows rule: rev_induct)
  case Nil
  then show ?case by (simp add: columnWidthsOf_def getWidth_def)
next
  case (snoc r rows)
  have step: "columnWidthsOf (rows @ [r]) = widthsOfLine r 0 (columnWidthsOf rows)"
    by (simp add: columnWidthsOf_def)
  show ?case
    unfolding step getWidth_widthsOfLine snoc.IH columnWidth_snoc by auto
qed

lemma formatLine_concat:
  "formatLine ws cells i s =
     s @ concat (map (\<lambda>k. case getWidth ws (i + k) of
                           None \<Rightarrow> cells ! k
                         | Some len \<Rightarrow> padEnd (cells ! k) (len + 2) (chr CHR '' ''))
                 [0..<length cells])"
proof (induction cells arbitrary: i s)
  case Nil
  then show ?case by simp
next
  case (Cons entry rest)
  have "[0..<length (entry # rest)] = 0 # map Suc [0..<length rest]"
    by (simp add: upt_conv_Cons map_Suc_upt del: upt_Suc)
  then show ?case
    by (simp add: Cons.IH comp_def del: upt_Suc cong: option.case_cong)
qed

lemma cell_le_columnWidth:
  "row \<in> set rows \<Longrightarrow> i < length row \<Longrightarrow> length (row ! i) \<le> columnWidth rows i"
  by (auto simp: columnWidth_def intro!: Max_ge)

lemma replicate_pad: "n \<le> w \<Longrightarrow> replicate (w + 2 - n) x = replicate (w - n) x @ [x, x]"
proof -
  assume "n \<le> w"
  then have "w + 2 - n = (w - n) + 2"
    by simp
  then have "replicate (w + 2 - n) x = replicate ((w - n) + 2) x"
    by (rule arg_cong)
  also have "\<dots> = replicate (w - n) x @ replicate 2 x"
    by (rule replicate_add)
  finally show ?thesis
    by (simp add: numeral_2_eq_2)
qed

lemma replicate_pad_Suc:
  "n \<le> w \<Longrightarrow> replicate (Suc (Suc w) - n) x = replicate (w - n) x @ [x, x]"
  using replicate_pad [of n w x] by simp

lemma formatLine_renderRow:
  assumes "row \<in> set rows"
  shows "formatLine (columnWidthsOf rows) row 0 [] = renderRow rows row"
proof -
  have "(case getWidth (columnWidthsOf rows) k of
           None \<Rightarrow> row ! k
         | Some len \<Rightarrow> padEnd (row ! k) (len + 2) (chr CHR '' '')) = renderCell rows k (row ! k)"
    if "k < length row" for k
  proof -
    from that assms have "getWidth (columnWidthsOf rows) k = Some (columnWidth rows k)"
      by (auto simp: getWidth_columnWidthsOf)
    moreover have "length (row ! k) \<le> columnWidth rows k"
      using assms that by (rule cell_le_columnWidth)
    ultimately show ?thesis
      by (simp add: padEnd_def renderCell_def str_def chr_def replicate_pad_Suc)
  qed
  then have "map (\<lambda>k. case getWidth (columnWidthsOf rows) (0 + k) of
                     None \<Rightarrow> row ! k
                   | Some len \<Rightarrow> padEnd (row ! k) (len + 2) (chr CHR '' ''))
               [0..<length row] =
             map (\<lambda>i. renderCell rows i (row ! i)) [0..<length row]"
    by (intro map_cong) simp_all
  then show ?thesis
    by (simp only: formatLine_concat renderRow_def append_Nil)
qed

lemma foldl_console_log:
  "foldl (\<lambda>c ln. console_log (f ln) c) c lns = c\<lparr>stdout := stdout c @ map f lns\<rparr>"
  by (induction lns arbitrary: c) (simp_all add: console_log_def)

lemma printAsTable_renderTable:
  "printAsTable rows c = c\<lparr>stdout := stdout c @ renderTable rows\<rparr>"
proof -
  have "map (\<lambda>ln. formatLine (columnWidthsOf rows) ln 0 []) rows = renderTable rows"
    by (simp add: renderTable_def formatLine_renderRow cong: map_cong)
  then show ?thesis
    by (simp add: printAsTable_def Let_def foldl_console_log)
qed

lemma length_renderCell:
  "length entry \<le> columnWidth rows i \<Longrightarrow>
   length (renderCell rows i entry) = columnWidth rows i + 2"
  by (simp add: renderCell_def str_def)

lemma length_renderRow:
  assumes "row \<in> set rows"
  shows "length (renderRow rows row) =
         sum_list (map (\<lambda>i. columnWidth rows i + 2) [0..<length row])"
proof -
  have "map (length \<circ> (\<lambda>i. renderCell rows i (row ! i))) [0..<length row] =
        map (\<lambda>i. columnWidth rows i + 2) [0..<length row]"
    using assms by (intro map_cong) (simp_all add: length_renderCell cell_le_columnWidth)
  then show ?thesis
    by (simp only: renderRow_def length_concat map_map)
qed

text \<open>
  Claim C8. Printing a table appends to the standard output the lines of
  \<open>renderTable\<close>, which depend on the rows only, and changes nothing else, so printing
  the same rows twice appends the same lines twice. The width the program holds for a
  column is the greatest length of a cell at that position over the rows that have one
  (and nothing for a position no row has). Every cell is at most as long as its column
  is wide and is rendered as its text followed by spaces, two more than it takes to
  reach the width, so a rendered cell is two characters longer than the width. A row is
  rendered as the cells it supplies and no others: its line is as long as the widths of
  its own columns, plus two for each.
\<close>

theorem printAsTable_render:
  "printAsTable rows c = c\<lparr>stdout := stdout c @ renderTable rows\<rparr> \<and>
   printAsTable rows (printAsTable rows c) =
     c\<lparr>stdout := stdout c @ renderTable rows @ renderTable rows\<rparr> \<and>
   (\<forall>i. getWidth (columnWidthsOf rows) i =
      (if \<exists>r \<in> set rows. i < length r then Some (columnWidth rows i) else None)) \<and>
   (\<forall>row \<in> set rows. \<forall>i < length row.
      length (row ! i) \<le> columnWidth rows i \<and>
      length (renderCell rows i (row ! i)) = columnWidth rows i + 2) \<and>
   (\<forall>row \<in> set rows.
      length (renderRow rows row) =
      sum_list (map (\<lambda>i. columnWidth rows i + 2) [0..<length row]))"
proof -
  have "printAsTable rows (printAsTable rows c) =
        c\<lparr>stdout := stdout c @ renderTable rows @ renderTable rows\<rparr>"
    by (simp add: printAsTable_renderTable)
  then show ?thesis
    using printAsTable_renderTable getWidth_columnWidthsOf cell_le_columnWidth
      length_renderCell length_renderRow
    by (simp del: One_nat_def)
qed

theorem printAsTable_render_witness:
  "printAsTable [[str ''a'', str ''bcd''], [], [str ''abc'']] console0 =
     \<lparr>stdout = [str ''a    bcd  '', [], str ''abc  ''], stderr = []\<rparr> \<and>
   renderTable [[str ''a'', str ''bcd''], [], [str ''abc'']] =
     [str ''a    bcd  '', [], str ''abc  '']"
proof -
  have 1: "printAsTable [[str ''a'', str ''bcd''], [], [str ''abc'']] console0 =
     \<lparr>stdout = [str ''a    bcd  '', [], str ''abc  ''], stderr = []\<rparr>"
    by (simp add: console0_def str_def chr_def printer_defs)
  from printAsTable_render [of "[[str ''a'', str ''bcd''], [], [str ''abc'']]" console0] 1
  show ?thesis
    by (simp add: console0_def)
qed

subsection \<open>The shape of the lines the register pattern accepts\<close>

lemma char_class_facts:
  "\<not> isAlnum (chr CHR '':'')" "\<not> isSpace (chr CHR '':'')" "\<not> isHexDigit (chr CHR '':'')"
  "\<not> isSpace (chr CHR ''0'')" "\<not> isDigit (chr CHR '' '')" "\<not> isHexDigit (chr CHR ''+'')"
  "\<not> isHexDigit (chr CHR ''x'')"
  by (simp_all add: isAlnum_def isSpace_def isHexDigit_def isDigit_def chr_def)

lemma isSpace_not_isAlnum: "isSpace c \<Longrightarrow> \<not> isAlnum c"
  by (auto simp: isSpace_def isAlnum_def word_le_nat_alt)

lemma isHexDigit_isAlnum: "isHexDigit c \<Longrightarrow> isAlnum c"
  by (auto simp: isHexDigit_def isAlnum_def word_le_nat_alt)

lemma takeWhile_run:
  "list_all P xs \<Longrightarrow> ys = [] \<or> \<not> P (hd ys) \<Longrightarrow> takeWhile P (xs @ ys) = xs"
  by (cases ys) (auto simp: list_all_iff)

lemma dropWhile_run:
  "list_all P xs \<Longrightarrow> ys = [] \<or> \<not> P (hd ys) \<Longrightarrow> dropWhile P (xs @ ys) = ys"
  by (cases ys) (auto simp: list_all_iff)

lemma registerPattern_unfold:
  "registerPattern l = Some (n, h) \<longleftrightarrow>
     n = takeWhile isAlnum l \<and> n \<noteq> [] \<and>
     (\<exists>r3. dropWhile isSpace (dropWhile isAlnum l) = chr CHR '':'' # r3 \<and>
           takeWhile isSpace r3 \<noteq> [] \<and> take 2 (dropWhile isSpace r3) = str ''0x'' \<and>
           h = drop 2 (dropWhile isSpace r3) \<and> h \<noteq> [] \<and> list_all isHexDigit h)"
proof -
  define r2 where "r2 = dropWhile isSpace (dropWhile isAlnum l)"
  show ?thesis
    unfolding registerPattern_def Let_def r2_def [symmetric]
    by (cases r2) auto
qed

lemma registerPattern_compute:
  assumes "n \<noteq> []" "list_all isAlnum n" "list_all isSpace ws1" "ws2 \<noteq> []" "list_all isSpace ws2"
  shows "registerPattern (n @ ws1 @ str '':'' @ ws2 @ str ''0x'' @ t) =
         (if t \<noteq> [] \<and> list_all isHexDigit t then Some (n, t) else None)"
proof -
  let ?r1 = "ws1 @ str '':'' @ ws2 @ str ''0x'' @ t"
  let ?r3 = "ws2 @ str ''0x'' @ t"
  have hd1: "?r1 = [] \<or> \<not> isAlnum (hd ?r1)"
    using assms(3) char_class_facts(1)
    by (cases ws1) (auto simp: str_def chr_def isSpace_not_isAlnum)
  have 1: "takeWhile isAlnum (n @ ?r1) = n" "dropWhile isAlnum (n @ ?r1) = ?r1"
    using assms(2) hd1 by (rule takeWhile_run, rule dropWhile_run)
  have 2: "dropWhile isSpace ?r1 = chr CHR '':'' # ?r3"
    using dropWhile_run [OF assms(3), of "str '':'' @ ?r3"] char_class_facts(2)
    by (simp add: str_def chr_def)
  have hd3: "str ''0x'' @ t = [] \<or> \<not> isSpace (hd (str ''0x'' @ t))"
    using char_class_facts(4) by (simp add: str_def chr_def)
  have 3: "takeWhile isSpace ?r3 = ws2" "dropWhile isSpace ?r3 = str ''0x'' @ t"
    using assms(5) hd3 by (rule takeWhile_run, rule dropWhile_run)
  have 4: "take 2 (str ''0x'' @ t) = str ''0x''" "drop 2 (str ''0x'' @ t) = t"
    by (simp_all add: str_def)
  show ?thesis
    unfolding registerPattern_def Let_def 1 2 3 list.case 4
    using assms(1,4) by (simp add: chr_def)
qed

lemma registerPattern_shape:
  "registerPattern l = Some (n, h) \<longleftrightarrow>
     (\<exists>ws1 ws2. l = n @ ws1 @ str '':'' @ ws2 @ str ''0x'' @ h \<and>
        n \<noteq> [] \<and> list_all isAlnum n \<and> list_all isSpace ws1 \<and>
        ws2 \<noteq> [] \<and> list_all isSpace ws2 \<and> h \<noteq> [] \<and> list_all isHexDigit h)"
proof
  assume "registerPattern l = Some (n, h)"
  then obtain r3 where
    n: "n = takeWhile isAlnum l" "n \<noteq> []" and
    r2: "dropWhile isSpace (dropWhile isAlnum l) = chr CHR '':'' # r3" and
    ws: "takeWhile isSpace r3 \<noteq> []" and
    r4: "take 2 (dropWhile isSpace r3) = str ''0x''" and
    h: "h = drop 2 (dropWhile isSpace r3)" "h \<noteq> []" "list_all isHexDigit h"
    unfolding registerPattern_unfold by blast
  let ?ws1 = "takeWhile isSpace (dropWhile isAlnum l)"
  let ?ws2 = "takeWhile isSpace r3"
  have "l = n @ dropWhile isAlnum l"
    by (simp add: n)
  also have "dropWhile isAlnum l = ?ws1 @ chr CHR '':'' # r3"
    using r2 takeWhile_dropWhile_id [of isSpace "dropWhile isAlnum l"] by simp
  also have "r3 = ?ws2 @ dropWhile isSpace r3"
    by simp
  also have "dropWhile isSpace r3 = str ''0x'' @ h"
    using r4 h(1) append_take_drop_id [of 2 "dropWhile isSpace r3"] by simp
  finally have "l = n @ ?ws1 @ str '':'' @ ?ws2 @ str ''0x'' @ h"
    by (simp add: str_def chr_def)
  moreover have "list_all isAlnum n" "list_all isSpace ?ws1" "list_all isSpace ?ws2"
    by (auto simp: n list_all_iff dest: set_takeWhileD)
  ultimately show "\<exists>ws1 ws2. l = n @ ws1 @ str '':'' @ ws2 @ str ''0x'' @ h \<and>
        n \<noteq> [] \<and> list_all isAlnum n \<and> list_all isSpace ws1 \<and>
        ws2 \<noteq> [] \<and> list_all isSpace ws2 \<and> h \<noteq> [] \<and> list_all isHexDigit h"
    using n(2) ws h(2,3) by blast
next
  assume "\<exists>ws1 ws2. l = n @ ws1 @ str '':'' @ ws2 @ str ''0x'' @ h \<and>
        n \<noteq> [] \<and> list_all isAlnum n \<and> list_all isSpace ws1 \<and>
        ws2 \<noteq> [] \<and> list_all isSpace ws2 \<and> h \<noteq> [] \<and> list_all isHexDigit h"
  then show "registerPattern l = Some (n, h)"
    by (auto simp: registerPattern_compute)
qed








subsection \<open>The backtrace pattern and hexadecimal values\<close>





lemma digitValue_hex: "isHexDigit c \<Longrightarrow> digitValue c < 16"
  by (auto simp: isHexDigit_def digitValue_def word_le_nat_alt)

lemma digitsValue_snoc:
  "digitsValue radix (s @ [c]) = digitsValue radix s * radix + digitValue c"
  by (simp add: digitsValue_def)

lemma digitsValue_hex_bound: "list_all isHexDigit h \<Longrightarrow> digitsValue 16 h < 16 ^ length h"
proof (induction h rule: rev_induct)
  case Nil
  then show ?case by (simp add: digitsValue_def)
next
  case (snoc c h)
  then have "digitsValue 16 h < 16 ^ length h" "digitValue c < 16"
    by (simp_all add: digitValue_hex)
  then have "digitsValue 16 h * 16 + digitValue c < 16 ^ length h * 16"
    by simp
  then show ?case
    by (simp add: digitsValue_snoc)
qed

lemma parseInt_hex_32: "list_all isHexDigit h \<Longrightarrow> length h \<le> 8 \<Longrightarrow> parseInt 16 h < 2 ^ 32"
proof -
  assume h: "list_all isHexDigit h" and l: "length h \<le> 8"
  have "(16::nat) ^ length h \<le> 16 ^ 8"
    using l by (intro power_increasing) simp_all
  with digitsValue_hex_bound [OF h] have v: "digitsValue 16 h < 4294967296"
    by simp
  then have "numberValue (digitsValue 16 h) = digitsValue 16 h"
    by (simp add: numberValue_def)
  with v show ?thesis
    by (simp add: parseInt_def)
qed

text \<open>
  Fourteen hexadecimal digits can denote an integer that no double represents: the
  source holds the nearest double.
\<close>

lemma parseInt_rounds: "parseInt 16 (str ''20000000000001'') = 9007199254740992"
  by (simp add: parseInt_def digitsValue_def numberValue_def digitValue_def str_def
      excessBits.simps)

lemma parseRegisterLine_Some_iff:
  "parseRegisterLine l = Some r \<longleftrightarrow>
   (\<exists>n h. registerPattern l = Some (n, h) \<and> r = \<lparr>register = n, value = parseInt 16 h\<rparr>)"
  by (auto simp: parseRegisterLine_def split: option.splits)


subsection \<open>The register parser\<close>

text \<open>
  Claim C4 says that the parser accepts a register line with any amount of white space,
  including none, on either side of the colon. The pattern has \<^verbatim>\<open>\s*\<close> before the colon
  but \<^verbatim>\<open>\s+\<close> after it: a line with nothing between the colon and \<^verbatim>\<open>0x\<close> is not
  matched, with or without white space before the colon, while the same line with one
  space after the colon is.
\<close>

theorem parseRegisterLine_no_space_counterexample:
  "parseRegisterLine (str ''R0:0x00000001'') = None \<and>
   parseRegisterLine (str ''R0 :0x00000001'') = None \<and>
   parseRegisterLine (str ''R0: 0x00000001'') = Some \<lparr>register = str ''R0'', value = 1\<rparr>"
  by (simp add: parser_defs)

text \<open>
  Claim C4, amended. The parser returns a record exactly for the lines that consist of
  a non-empty name of ASCII letters and digits, any amount of white space (including
  none), a colon, at least one white-space character, \<^verbatim>\<open>0x\<close> and at least one
  hexadecimal digit, and nothing else; the record is the name and the number
  \<^verbatim>\<open>parseInt\<close> reads from the digits in base 16. For every other line it reports no
  match.
\<close>

theorem parseRegisterLine_shape:
  "parseRegisterLine l = Some r \<longleftrightarrow>
   (\<exists>n ws1 ws2 h.
      l = n @ ws1 @ str '':'' @ ws2 @ str ''0x'' @ h \<and>
      n \<noteq> [] \<and> list_all isAlnum n \<and> list_all isSpace ws1 \<and>
      ws2 \<noteq> [] \<and> list_all isSpace ws2 \<and> h \<noteq> [] \<and> list_all isHexDigit h \<and>
      r = \<lparr>register = n, value = parseInt 16 h\<rparr>)"
  unfolding parseRegisterLine_Some_iff registerPattern_shape by blast

theorem parseRegisterLine_shape_witness:
  "parseRegisterLine (str ''R0'' @ str ''   '' @ str '':'' @ str '' '' @ str ''0x'' @ str ''1f'') =
   Some \<lparr>register = str ''R0'', value = 31\<rparr>"
proof -
  have "\<exists>n ws1 ws2 h.
      str ''R0'' @ str ''   '' @ str '':'' @ str '' '' @ str ''0x'' @ str ''1f'' =
        n @ ws1 @ str '':'' @ ws2 @ str ''0x'' @ h \<and>
      n \<noteq> [] \<and> list_all isAlnum n \<and> list_all isSpace ws1 \<and>
      ws2 \<noteq> [] \<and> list_all isSpace ws2 \<and> h \<noteq> [] \<and> list_all isHexDigit h \<and>
      \<lparr>register = str ''R0'', value = 31\<rparr> = \<lparr>register = n, value = parseInt 16 h\<rparr>"
    by (rule exI [of _ "str ''R0''"], rule exI [of _ "str ''   ''"],
        rule exI [of _ "str '' ''"], rule exI [of _ "str ''1f''"])
      (simp add: parser_defs)
  then show ?thesis
    by (rule parseRegisterLine_shape [THEN iffD2])
qed

text \<open>
  Claim C5 says that the value of an accepted line is always below \<open>2 ^ 32\<close>, however
  many hexadecimal digits the line has. The value is what \<^verbatim>\<open>parseInt\<close> reads from the
  digits and nothing reduces it: nine digits give \<open>2 ^ 32\<close> itself.
\<close>

theorem parseRegisterLine_value_counterexample:
  "parseRegisterLine (str ''R0 : 0x100000000'') =
     Some \<lparr>register = str ''R0'', value = 4294967296\<rparr> \<and>
   \<not> value \<lparr>register = str ''R0'', value = 4294967296\<rparr> < 2 ^ 32"
  by (simp add: parser_defs)

text \<open>
  Claim C5, amended. For every register line the parser accepts that has at most eight
  hexadecimal digits (the second group of the pattern), the value of the returned
  record is below \<open>2 ^ 32\<close>.
\<close>

theorem parseRegisterLine_value_bound:
  assumes "registerPattern l = Some (n, h)" and "length h \<le> 8"
  shows "\<exists>r. parseRegisterLine l = Some r \<and> value r < 2 ^ 32"
proof -
  from assms(1) have "list_all isHexDigit h"
    unfolding registerPattern_shape by blast
  then have "parseInt 16 h < 2 ^ 32"
    using assms(2) by (rule parseInt_hex_32)
  then show ?thesis
    using assms(1) by (simp add: parseRegisterLine_def)
qed

theorem parseRegisterLine_value_bound_witness:
  "registerPattern (str ''CFSR : 0xFFFFFFFF'') = Some (str ''CFSR'', str ''FFFFFFFF'') \<and>
   parseRegisterLine (str ''CFSR : 0xFFFFFFFF'') =
     Some \<lparr>register = str ''CFSR'', value = 4294967295\<rparr> \<and>
   value \<lparr>register = str ''CFSR'', value = 4294967295\<rparr> < 2 ^ 32"
proof -
  have 1: "registerPattern (str ''CFSR : 0xFFFFFFFF'') = Some (str ''CFSR'', str ''FFFFFFFF'')"
    by (simp add: parser_defs)
  have 2: "length (str ''FFFFFFFF'') \<le> 8"
    by (simp add: str_def)
  have 3: "parseRegisterLine (str ''CFSR : 0xFFFFFFFF'') =
           Some \<lparr>register = str ''CFSR'', value = 4294967295\<rparr>"
    by (simp add: parser_defs)
  from parseRegisterLine_value_bound [OF 1 2] 3
  have "value \<lparr>register = str ''CFSR'', value = 4294967295\<rparr> < 2 ^ 32"
    by auto
  with 1 3 show ?thesis by blast
qed

subsection \<open>Substring match against whole-line match\<close>






end
